theory Spec2Isabelle
  imports Main "HOL-Library.Sublist" "HOL-Library.AList"
begin

section \<open>Dynamic JSON values\<close>

text \<open>
  The Go code handles request and response bodies as \<^verbatim>\<open>map[string]interface{}\<close>.
  A decoded value is nil, a bool, a number, a string, a slice or a map. A map is
  kept as an association list read through \<open>map_of\<close>; a key is written with
  \<open>AList.update\<close> and removed with \<open>AList.delete\<close>. Numbers are never inspected
  by the code below (the only number built is the literal 504).
\<close>

datatype json =
    JNull
  | JBool bool
  | JNum int
  | JStr string
  | JArr "json list"
  | JObj "(string \<times> json) list"

type_synonym obj = "(string \<times> json) list"

text \<open>Type assertions \<^verbatim>\<open>v.(string)\<close>, \<^verbatim>\<open>v.([]interface{})\<close>, \<^verbatim>\<open>v.(map[string]interface{})\<close>
  on the result of a map read; a missing key reads as nil and fails every assertion.\<close>

fun asString :: "json option \<Rightarrow> string option" where
  "asString (Some (JStr s)) = Some s"
| "asString _ = None"

fun asArray :: "json option \<Rightarrow> json list option" where
  "asArray (Some (JArr xs)) = Some xs"
| "asArray _ = None"

fun asObject :: "json option \<Rightarrow> obj option" where
  "asObject (Some (JObj m)) = Some m"
| "asObject _ = None"

section \<open>The string functions of Go's strings package, on bytes\<close>

definition HasPrefix :: "string \<Rightarrow> string \<Rightarrow> bool" where
  "HasPrefix s p = (take (length p) s = p)"

definition TrimPrefix :: "string \<Rightarrow> string \<Rightarrow> string" where
  "TrimPrefix s p = (if HasPrefix s p then drop (length p) s else s)"

definition HasSuffix :: "string \<Rightarrow> string \<Rightarrow> bool" where
  "HasSuffix s p = (length p \<le> length s \<and> drop (length s - length p) s = p)"

definition TrimSuffix :: "string \<Rightarrow> string \<Rightarrow> string" where
  "TrimSuffix s p = (if HasSuffix s p then take (length s - length p) s else s)"

fun Contains :: "string \<Rightarrow> string \<Rightarrow> bool" where
  "Contains [] sub = (sub = [])"
| "Contains (c # cs) sub = (HasPrefix (c # cs) sub \<or> Contains cs sub)"

text \<open>
  \<^verbatim>\<open>strings.TrimSpace\<close> removes leading and trailing Unicode white space. On the
  bytes of a string a white space code point is one of the UTF-8 encodings below
  (U+0009..U+000D, U+0020, U+0085, U+00A0, U+1680, U+2000..U+200A, U+2028, U+2029,
  U+202F, U+205F, U+3000); a lead byte is never a continuation byte, so decoding
  from either end finds such a code point exactly where its encoding stands.
\<close>

definition whiteSpace :: "string list" where
  "whiteSpace =
    [[CHR 0x09], [CHR 0x0A], [CHR 0x0B], [CHR 0x0C], [CHR 0x0D], [CHR 0x20],
     [CHR 0xC2, CHR 0x85], [CHR 0xC2, CHR 0xA0],
     [CHR 0xE1, CHR 0x9A, CHR 0x80],
     [CHR 0xE2, CHR 0x80, CHR 0x80], [CHR 0xE2, CHR 0x80, CHR 0x81],
     [CHR 0xE2, CHR 0x80, CHR 0x82], [CHR 0xE2, CHR 0x80, CHR 0x83],
     [CHR 0xE2, CHR 0x80, CHR 0x84], [CHR 0xE2, CHR 0x80, CHR 0x85],
     [CHR 0xE2, CHR 0x80, CHR 0x86], [CHR 0xE2, CHR 0x80, CHR 0x87],
     [CHR 0xE2, CHR 0x80, CHR 0x88], [CHR 0xE2, CHR 0x80, CHR 0x89],
     [CHR 0xE2, CHR 0x80, CHR 0x8A],
     [CHR 0xE2, CHR 0x80, CHR 0xA8], [CHR 0xE2, CHR 0x80, CHR 0xA9],
     [CHR 0xE2, CHR 0x80, CHR 0xAF],
     [CHR 0xE2, CHR 0x81, CHR 0x9F],
     [CHR 0xE3, CHR 0x80, CHR 0x80]]"

text \<open>The length of the white space code point a string starts with (0: none).\<close>

definition leadingSpace :: "string \<Rightarrow> nat" where
  "leadingSpace s = (case List.find (HasPrefix s) whiteSpace of None \<Rightarrow> 0 | Some w \<Rightarrow> length w)"

definition trailingSpace :: "string \<Rightarrow> nat" where
  "trailingSpace s = (case List.find (HasSuffix s) whiteSpace of None \<Rightarrow> 0 | Some w \<Rightarrow> length w)"

fun trimLeftN :: "nat \<Rightarrow> string \<Rightarrow> string" where
  "trimLeftN 0 s = s"
| "trimLeftN (Suc n) s =
     (if leadingSpace s = 0 then s else trimLeftN n (drop (leadingSpace s) s))"

fun trimRightN :: "nat \<Rightarrow> string \<Rightarrow> string" where
  "trimRightN 0 s = s"
| "trimRightN (Suc n) s =
     (if trailingSpace s = 0 then s
      else trimRightN n (take (length s - trailingSpace s) s))"

text \<open>Each round removes at least one byte, so \<open>length s\<close> rounds are enough.\<close>

definition TrimSpace :: "string \<Rightarrow> string" where
  "TrimSpace s = (let l = trimLeftN (length s) s in trimRightN (length l) l)"

section \<open>Configuration and handler construction\<close>

text \<open>\<^verbatim>\<open>time.Duration\<close> is a count of nanoseconds.\<close>

record StreamConfig =
  MaxRetries :: int
  RetryDelay :: int
  EnablePunctuationHeuristic :: bool
  DoneTokenPatterns :: "string list"

record StreamHandler =
  maxRetries :: int
  retryDelay :: int
  enablePunctuationHeuristic :: bool
  doneTokenPatterns :: "string list"

definition Second :: int where
  "Second = 1000000000"

definition defaultDoneTokens :: "string list" where
  "defaultDoneTokens = [''[done]'', ''[DONE]'', ''done'', ''DONE'']"

definition NewStreamHandler :: "StreamConfig \<Rightarrow> StreamHandler" where
  "NewStreamHandler config =
    (let c1 = (if MaxRetries config \<le> 0 then config\<lparr>MaxRetries := 3\<rparr> else config);
         c2 = (if RetryDelay c1 \<le> 0 then c1\<lparr>RetryDelay := 1 * Second\<rparr> else c1);
         c3 = (if length (DoneTokenPatterns c2) = 0
               then c2\<lparr>DoneTokenPatterns := defaultDoneTokens\<rparr> else c2)
     in \<lparr>maxRetries = MaxRetries c3,
         retryDelay = RetryDelay c3,
         enablePunctuationHeuristic = EnablePunctuationHeuristic c3,
         doneTokenPatterns = DoneTokenPatterns c3\<rparr>)"

text \<open>The processor keeps the handler built from the configuration and the
  configuration as it was passed.\<close>

record DefaultStreamProcessor =
  handler :: StreamHandler
  config :: StreamConfig

definition NewDefaultStreamProcessor :: "StreamConfig \<Rightarrow> DefaultStreamProcessor" where
  "NewDefaultStreamProcessor c = \<lparr>handler = NewStreamHandler c, config = c\<rparr>"

definition CreateProcessor :: "string \<Rightarrow> DefaultStreamProcessor" where
  "CreateProcessor channelType =
    (let base = \<lparr>MaxRetries = 3, RetryDelay = 1 * 1000 * 1000 * 1000,
                  EnablePunctuationHeuristic = True,
                  DoneTokenPatterns = [''[done]'', ''[DONE]'', ''done'', ''DONE'']\<rparr>;
         c = (if channelType = ''gemini'' then
                base\<lparr>MaxRetries := 5,
                     DoneTokenPatterns := [''[done]'', ''[DONE]'', ''done'', ''DONE''],
                     EnablePunctuationHeuristic := True\<rparr>
              else if channelType = ''openai'' then
                base\<lparr>MaxRetries := 2, DoneTokenPatterns := [],
                     EnablePunctuationHeuristic := False\<rparr>
              else if channelType = ''anthropic'' then
                base\<lparr>MaxRetries := 2, DoneTokenPatterns := [],
                     EnablePunctuationHeuristic := False\<rparr>
              else
                base\<lparr>MaxRetries := 3,
                     DoneTokenPatterns := [''[done]'', ''[DONE]'', ''done'', ''DONE''],
                     EnablePunctuationHeuristic := True\<rparr>)
     in NewDefaultStreamProcessor c)"

section \<open>Completion heuristics\<close>

text \<open>
  The constant \<^verbatim>\<open>punctuations\<close> of \<^verbatim>\<open>endsWithSentencePunctuation\<close>, one UTF-8
  encoding per code point: U+3002, U+FF1F, U+FF01, then \<^verbatim>\<open>. ! ?\<close>, U+2026 and the
  two ASCII quotes (each written twice in the source). The last code point of the
  trimmed text is one of them exactly when the text ends with its encoding.
\<close>

definition punctuations :: "string list" where
  "punctuations =
    [[CHR 0xE3, CHR 0x80, CHR 0x82], [CHR 0xEF, CHR 0xBC, CHR 0x9F],
     [CHR 0xEF, CHR 0xBC, CHR 0x81], ''.'', ''!'', ''?'',
     [CHR 0xE2, CHR 0x80, CHR 0xA6], [CHR 0x22], [CHR 0x27], [CHR 0x22], [CHR 0x27]]"

definition endsWithSentencePunctuation :: "string \<Rightarrow> bool" where
  "endsWithSentencePunctuation text =
    (let trimmed = TrimSpace text in
     if length trimmed = 0 then False
     else list_ex (HasSuffix trimmed) punctuations)"

definition isContentComplete :: "StreamHandler \<Rightarrow> string \<Rightarrow> string \<Rightarrow> bool" where
  "isContentComplete sh text channelType =
    (if text = [] then False
     else if channelType = ''gemini'' \<and> list_ex (Contains text) (doneTokenPatterns sh) then True
     else endsWithSentencePunctuation text \<and> length text > 50)"

section \<open>Facts about the string functions\<close>

lemma HasPrefix_prefix: "HasPrefix s p \<longleftrightarrow> prefix p s"
  by (auto simp: HasPrefix_def prefix_def) (metis append_eq_conv_conj)

lemma HasSuffix_suffix: "HasSuffix s p \<longleftrightarrow> suffix p s"
  by (auto simp: HasSuffix_def suffix_def) (metis append_take_drop_id)

lemma Contains_sublist: "Contains s sub \<longleftrightarrow> sublist sub s"
  by (induction s) (auto simp: HasPrefix_prefix sublist_Cons_right)

lemma TrimSpace_Nil: "TrimSpace [] = []"
  by (simp add: TrimSpace_def)

lemma endsWithSentencePunctuation_Nil: "\<not> endsWithSentencePunctuation []"
  by (simp add: endsWithSentencePunctuation_def TrimSpace_Nil)

section \<open>Handler construction (C10)\<close>

text \<open>
  C10. The constructor replaces a MaxRetries at most 0 by 3, a RetryDelay at most 0
  by one second and an empty DoneTokenPatterns list by the four default tokens, so
  every constructed handler allows at least one extra attempt and has at least one
  done-token pattern; the openai and anthropic handlers of the factory, configured
  with an empty list, carry the four defaults (their processors keep the empty list
  in the stored configuration only).
\<close>

theorem NewStreamHandler_defaults:
  "maxRetries (NewStreamHandler c) = (if MaxRetries c \<le> 0 then 3 else MaxRetries c)
   \<and> retryDelay (NewStreamHandler c) = (if RetryDelay c \<le> 0 then Second else RetryDelay c)
   \<and> doneTokenPatterns (NewStreamHandler c) =
        (if DoneTokenPatterns c = [] then [''[done]'', ''[DONE]'', ''done'', ''DONE'']
         else DoneTokenPatterns c)
   \<and> enablePunctuationHeuristic (NewStreamHandler c) = EnablePunctuationHeuristic c
   \<and> 0 < maxRetries (NewStreamHandler c)
   \<and> 0 < retryDelay (NewStreamHandler c)
   \<and> doneTokenPatterns (NewStreamHandler c) \<noteq> []
   \<and> doneTokenPatterns (handler (CreateProcessor ''openai'')) =
        [''[done]'', ''[DONE]'', ''done'', ''DONE'']
   \<and> doneTokenPatterns (handler (CreateProcessor ''anthropic'')) =
        [''[done]'', ''[DONE]'', ''done'', ''DONE'']
   \<and> DoneTokenPatterns (config (CreateProcessor ''openai'')) = []
   \<and> DoneTokenPatterns (config (CreateProcessor ''anthropic'')) = []"
  by (simp add: NewStreamHandler_def CreateProcessor_def NewDefaultStreamProcessor_def
        defaultDoneTokens_def Second_def Let_def)

section \<open>Content completeness (C4)\<close>

text \<open>
  C4, as stated, fails for the Gemini dialect: a text without any done-token that
  ends with sentence punctuation and is longer than 50 bytes is complete for the
  Gemini handler of the factory, because the Gemini branch falls through to the
  generic check.
\<close>

theorem isContentComplete_gemini_counterexample:
  "isContentComplete (handler (CreateProcessor ''gemini''))
     ''The stream stopped here, and nothing else was sent.'' ''gemini''
   \<and> \<not> list_ex (Contains ''The stream stopped here, and nothing else was sent.'')
         (doneTokenPatterns (handler (CreateProcessor ''gemini'')))"
  by code_simp

text \<open>
  C4, amended. For the Gemini dialect the result is true exactly when the text is
  not empty and either some configured done-token pattern occurs in it or the
  generic check holds; for every other dialect it is true exactly when the text
  ends with sentence punctuation and is longer than 50 bytes. The text "abcd" is
  not complete for the generic dialect.
\<close>

theorem isContentComplete_spec:
  "(isContentComplete sh text ct \<longleftrightarrow>
     (if ct = ''gemini''
      then text \<noteq> [] \<and> ((\<exists>p\<in>set (doneTokenPatterns sh). sublist p text)
            \<or> (endsWithSentencePunctuation text \<and> length text > 50))
      else endsWithSentencePunctuation text \<and> length text > 50))
   \<and> \<not> isContentComplete sh ''abcd'' ''generic''"
  by (auto simp: isContentComplete_def list_ex_iff Contains_sublist
        endsWithSentencePunctuation_Nil)

section \<open>Resume bodies\<close>

definition continuationText :: string where
  "continuationText = ''Continue exactly where you left off without any preamble or repetition. Remember to include [done] at the end.''"

text \<open>An entry whose \<^verbatim>\<open>role\<close> is the string \<^verbatim>\<open>user\<close> (the test inside the search loop
  of \<^verbatim>\<open>addGeminiRetryContext\<close>).\<close>

fun isUserEntry :: "json \<Rightarrow> bool" where
  "isUserEntry (JObj content) =
     (case asString (map_of content ''role'') of Some role \<Rightarrow> role = ''user'' | None \<Rightarrow> False)"
| "isUserEntry _ = False"

text \<open>The loop \<^verbatim>\<open>for i := len(contents) - 1; i >= 0; i--\<close>: the second argument is
  \<open>i + 1\<close>; the result is \<open>lastUserIndex\<close>, -1 when the loop ends without a hit.\<close>

fun findLastUser :: "json list \<Rightarrow> nat \<Rightarrow> int" where
  "findLastUser contents 0 = -1"
| "findLastUser contents (Suc i) =
     (if isUserEntry (contents ! i) then int i else findLastUser contents i)"

definition contextMessages :: "string \<Rightarrow> json list" where
  "contextMessages accumulatedText =
    [JObj [(''role'', JStr ''model''),
           (''parts'', JArr [JObj [(''text'', JStr accumulatedText)]])],
     JObj [(''role'', JStr ''user''),
           (''parts'', JArr [JObj [(''text'', JStr continuationText)]])]]"

definition addGeminiRetryContext :: "obj \<Rightarrow> string \<Rightarrow> obj" where
  "addGeminiRetryContext body accumulatedText =
    (case asArray (map_of body ''contents'') of
       None \<Rightarrow> body
     | Some contents \<Rightarrow>
         (let lastUserIndex = findLastUser contents (length contents) in
          if lastUserIndex \<noteq> -1 then
            AList.update ''contents''
              (JArr (take (nat (lastUserIndex + 1)) contents
                     @ contextMessages accumulatedText
                     @ drop (nat (lastUserIndex + 1)) contents)) body
          else
            AList.update ''contents'' (JArr (contents @ contextMessages accumulatedText)) body))"

definition addOpenAIRetryContext :: "obj \<Rightarrow> string \<Rightarrow> obj" where
  "addOpenAIRetryContext body accumulatedText =
    (case asArray (map_of body ''messages'') of
       None \<Rightarrow> body
     | Some messages \<Rightarrow>
         (let systemMessage = JObj [(''role'', JStr ''system''),
                (''content'', JStr (''Continue from where you left off. Previous response: ''
                   @ accumulatedText
                   @ [CHR 0x0A, CHR 0x0A]
                   @ ''Continue generating the response without repetition.''))]
          in AList.update ''messages'' (JArr ([systemMessage] @ messages)) body))"

definition addAnthropicRetryContext :: "obj \<Rightarrow> string \<Rightarrow> obj" where
  "addAnthropicRetryContext body accumulatedText =
    (case asArray (map_of body ''messages'') of
       None \<Rightarrow> body
     | Some messages \<Rightarrow>
         (let contextMessage = JObj [(''role'', JStr ''user''),
                (''content'', JStr (''Continue from where you left off. Previous response: ''
                   @ accumulatedText
                   @ [CHR 0x0A, CHR 0x0A]
                   @ ''Continue without repetition.''))]
          in AList.update ''messages'' (JArr (messages @ [contextMessage])) body))"

definition addGenericRetryContext :: "obj \<Rightarrow> string \<Rightarrow> obj" where
  "addGenericRetryContext body accumulatedText =
    (case asArray (map_of body ''messages'') of
       Some messages \<Rightarrow>
         (let contextMessage = JObj [(''role'', JStr ''user''),
                (''content'', JStr (''Continue from where you left off. Previous response: ''
                   @ accumulatedText
                   @ [CHR 0x0A, CHR 0x0A]
                   @ ''Continue without repetition.''))]
          in AList.update ''messages'' (JArr (messages @ [contextMessage])) body)
     | None \<Rightarrow> body)"

text \<open>The copy loop gives a new top-level map with the same keys and values; the
  value model has no identity, so the copy is the original association list.\<close>

definition buildRetryRequestBody :: "obj \<Rightarrow> string \<Rightarrow> string \<Rightarrow> obj" where
  "buildRetryRequestBody originalBody accumulatedText channelType =
    (let retryBody = originalBody in
     if channelType = ''openai'' then addOpenAIRetryContext retryBody accumulatedText
     else if channelType = ''gemini'' then addGeminiRetryContext retryBody accumulatedText
     else if channelType = ''anthropic'' then addAnthropicRetryContext retryBody accumulatedText
     else addGenericRetryContext retryBody accumulatedText)"

lemma findLastUser_none:
  "findLastUser cs n = -1 \<longleftrightarrow> (\<forall>j<n. \<not> isUserEntry (cs ! j))"
  by (induction n) (auto simp: less_Suc_eq)

lemma findLastUser_unique:
  assumes "i < n" "isUserEntry (cs ! i)" "\<forall>j. i < j \<and> j < n \<longrightarrow> \<not> isUserEntry (cs ! j)"
  shows "findLastUser cs n = int i"
  using assms
proof (induction n)
  case 0
  then show ?case by simp
next
  case (Suc n)
  show ?case
  proof (cases "i = n")
    case True
    with Suc.prems show ?thesis by simp
  next
    case False
    with Suc.prems have "i < n" by simp
    moreover from Suc.prems False have "\<not> isUserEntry (cs ! n)" by auto
    ultimately show ?thesis using Suc by simp
  qed
qed

text \<open>
  C8. When \<^verbatim>\<open>contents\<close> of the original body is an array, the Gemini resume body has
  the model entry carrying the accumulated text and then the fixed continuation
  user entry right after the last entry whose role is \<^verbatim>\<open>user\<close>, all other entries in
  their order; without a user entry both are appended at the end. Every other key
  of the body is unchanged.
\<close>

theorem gemini_resume_body:
  assumes "map_of body ''contents'' = Some (JArr cs)"
  shows "(\<forall>i. i < length cs \<and> isUserEntry (cs ! i)
              \<and> (\<forall>j. i < j \<and> j < length cs \<longrightarrow> \<not> isUserEntry (cs ! j))
           \<longrightarrow> map_of (buildRetryRequestBody body acc ''gemini'') ''contents'' =
                 Some (JArr (take (Suc i) cs @ contextMessages acc @ drop (Suc i) cs)))
       \<and> ((\<forall>j<length cs. \<not> isUserEntry (cs ! j))
           \<longrightarrow> map_of (buildRetryRequestBody body acc ''gemini'') ''contents'' =
                 Some (JArr (cs @ contextMessages acc)))
       \<and> (\<forall>k. k \<noteq> ''contents''
           \<longrightarrow> map_of (buildRetryRequestBody body acc ''gemini'') k = map_of body k)"
proof (intro conjI allI impI)
  fix i
  assume h: "i < length cs \<and> isUserEntry (cs ! i)
              \<and> (\<forall>j. i < j \<and> j < length cs \<longrightarrow> \<not> isUserEntry (cs ! j))"
  then have "findLastUser cs (length cs) = int i"
    by (intro findLastUser_unique) auto
  then show "map_of (buildRetryRequestBody body acc ''gemini'') ''contents'' =
                 Some (JArr (take (Suc i) cs @ contextMessages acc @ drop (Suc i) cs))"
    using assms
    by (simp add: buildRetryRequestBody_def addGeminiRetryContext_def update_conv' nat_add_distrib)
next
  assume "\<forall>j<length cs. \<not> isUserEntry (cs ! j)"
  then have "findLastUser cs (length cs) = -1"
    by (simp add: findLastUser_none)
  then show "map_of (buildRetryRequestBody body acc ''gemini'') ''contents'' =
                 Some (JArr (cs @ contextMessages acc))"
    using assms by (simp add: buildRetryRequestBody_def addGeminiRetryContext_def update_conv')
next
  fix k :: string
  assume "k \<noteq> ''contents''"
  then show "map_of (buildRetryRequestBody body acc ''gemini'') k = map_of body k"
    using assms
    by (simp add: buildRetryRequestBody_def addGeminiRetryContext_def update_conv' Let_def)
qed

text \<open>The example of the specification (one model-only entry, accumulated text "y"),
  and a body whose last user entry is followed by a model entry.\<close>

theorem gemini_resume_body_witness:
  "map_of (buildRetryRequestBody
       [(''contents'', JArr [JObj [(''role'', JStr ''model''),
                                   (''parts'', JArr [JObj [(''text'', JStr ''x'')]])]])]
       ''y'' ''gemini'') ''contents'' =
     Some (JArr [JObj [(''role'', JStr ''model''),
                       (''parts'', JArr [JObj [(''text'', JStr ''x'')]])],
                 JObj [(''role'', JStr ''model''),
                       (''parts'', JArr [JObj [(''text'', JStr ''y'')]])],
                 JObj [(''role'', JStr ''user''),
                       (''parts'', JArr [JObj [(''text'', JStr continuationText)]])]])
   \<and> map_of (buildRetryRequestBody
       [(''model'', JStr ''m''),
        (''contents'', JArr [JObj [(''role'', JStr ''user'')], JObj [(''role'', JStr ''model'')]])]
       ''y'' ''gemini'') ''contents'' =
     Some (JArr [JObj [(''role'', JStr ''user'')],
                 JObj [(''role'', JStr ''model''),
                       (''parts'', JArr [JObj [(''text'', JStr ''y'')]])],
                 JObj [(''role'', JStr ''user''),
                       (''parts'', JArr [JObj [(''text'', JStr continuationText)]])],
                 JObj [(''role'', JStr ''model'')]])"
proof -
  let ?m = "JObj [(''role'', JStr ''model''), (''parts'', JArr [JObj [(''text'', JStr ''x'')]])]"
  let ?b1 = "[(''contents'', JArr [?m])]"
  let ?cs2 = "[JObj [(''role'', JStr ''user'')], JObj [(''role'', JStr ''model'')]]"
  let ?b2 = "[(''model'', JStr ''m''), (''contents'', JArr ?cs2)]"
  have h1: "map_of ?b1 ''contents'' = Some (JArr [?m])"
    by simp
  have h2: "map_of ?b2 ''contents'' = Some (JArr ?cs2)"
    by simp
  have n1: "\<forall>j<length [?m]. \<not> isUserEntry ([?m] ! j)"
    by simp
  have n2: "0 < length ?cs2 \<and> isUserEntry (?cs2 ! 0)
      \<and> (\<forall>j. 0 < j \<and> j < length ?cs2 \<longrightarrow> \<not> isUserEntry (?cs2 ! j))"
    by (auto simp: less_Suc_eq)
  from gemini_resume_body [OF h1, of "''y''"] n1
  have r1: "map_of (buildRetryRequestBody ?b1 ''y'' ''gemini'') ''contents'' =
      Some (JArr ([?m] @ contextMessages ''y''))"
    by blast
  from gemini_resume_body [OF h2, of "''y''"] n2
  have r2: "map_of (buildRetryRequestBody ?b2 ''y'' ''gemini'') ''contents'' =
      Some (JArr (take (Suc 0) ?cs2 @ contextMessages ''y'' @ drop (Suc 0) ?cs2))"
    by blast
  from r1 r2 show ?thesis
    by (simp add: contextMessages_def)
qed

section \<open>Reshaping the outbound Gemini body\<close>

definition markerText :: string where
  "markerText = ''IMPORTANT: At the very end of your entire response, you must write the token [done] to signal completion. This is a mandatory technical requirement.''"

definition newSystemPromptPart :: json where
  "newSystemPromptPart = JObj [(''text'', JStr markerText)]"

text \<open>The first block of \<^verbatim>\<open>injectSystemPrompt\<close>: the snake_case field is merged into
  the camelCase one and deleted.\<close>

definition mergeSnakeCase :: "obj \<Rightarrow> obj" where
  "mergeSnakeCase body =
    (case map_of body ''system_instruction'' of
       None \<Rightarrow> body
     | Some snakeVal \<Rightarrow>
         (let camelMap = (case asObject (map_of body ''systemInstruction'') of
                            Some m \<Rightarrow> m | None \<Rightarrow> []);
              camelParts = (case asArray (map_of camelMap ''parts'') of
                              Some ps \<Rightarrow> ps | None \<Rightarrow> []);
              camelParts' = (case asObject (Some snakeVal) of
                               Some snakeMap \<Rightarrow>
                                 (case asArray (map_of snakeMap ''parts'') of
                                    Some snakeParts \<Rightarrow> snakeParts @ camelParts
                                  | None \<Rightarrow> camelParts)
                             | None \<Rightarrow> camelParts);
              camelMap' = AList.update ''parts'' (JArr camelParts') camelMap
          in AList.delete ''system_instruction''
               (AList.update ''systemInstruction'' (JObj camelMap') body)))"

definition injectSystemPrompt :: "obj \<Rightarrow> obj" where
  "injectSystemPrompt body0 =
    (let body = mergeSnakeCase body0 in
     case map_of body ''systemInstruction'' of
       None \<Rightarrow>
         AList.update ''systemInstruction'' (JObj [(''parts'', JArr [newSystemPromptPart])]) body
     | Some JNull \<Rightarrow>
         AList.update ''systemInstruction'' (JObj [(''parts'', JArr [newSystemPromptPart])]) body
     | Some (JObj instruction) \<Rightarrow>
         (case asArray (map_of instruction ''parts'') of
            None \<Rightarrow>
              AList.update ''systemInstruction''
                (JObj (AList.update ''parts'' (JArr [newSystemPromptPart]) instruction)) body
          | Some parts \<Rightarrow>
              AList.update ''systemInstruction''
                (JObj (AList.update ''parts'' (JArr (parts @ [newSystemPromptPart])) instruction))
                body)
     | Some _ \<Rightarrow>
         AList.update ''systemInstruction'' (JObj [(''parts'', JArr [newSystemPromptPart])]) body)"

text \<open>The parts array of an instruction value, empty when it is not an object with an array.\<close>
definition partsOf :: "json option \<Rightarrow> json list" where
  "partsOf v = (case asObject v of None \<Rightarrow> []
      | Some m \<Rightarrow> (case asArray (map_of m ''parts'') of None \<Rightarrow> [] | Some ps \<Rightarrow> ps))"

lemma mergeSnakeCase_camel:
  assumes "map_of body ''system_instruction'' = Some sv"
  shows "\<exists>m. map_of (mergeSnakeCase body) ''systemInstruction'' = Some (JObj m)
     \<and> map_of m ''parts'' = Some (JArr (partsOf (Some sv) @ partsOf (map_of body ''systemInstruction'')))
     \<and> (\<forall>k. k \<noteq> ''parts'' \<longrightarrow> map_of m k =
          (case asObject (map_of body ''systemInstruction'') of Some c \<Rightarrow> map_of c k | None \<Rightarrow> None))"
  using assms
  by (auto simp: mergeSnakeCase_def partsOf_def update_conv' delete_conv' Let_def
       split: option.splits)

text \<open>
  C9. When the body has a snake_case \<^verbatim>\<open>system_instruction\<close> (whether or not a camelCase
  \<^verbatim>\<open>systemInstruction\<close> exists), reshaping deletes the snake_case key and leaves a
  \<^verbatim>\<open>systemInstruction\<close> object whose parts are the snake_case parts in their order,
  then the original camelCase parts in their order, then the completion marker
  part, appended whether or not an equal part is already present.
\<close>

theorem injectSystemPrompt_merge:
  assumes "map_of body ''system_instruction'' = Some sv"
  shows "map_of (injectSystemPrompt body) ''system_instruction'' = None
     \<and> (\<exists>m. map_of (injectSystemPrompt body) ''systemInstruction'' = Some (JObj m)
          \<and> map_of m ''parts'' =
              Some (JArr (partsOf (Some sv) @ partsOf (map_of body ''systemInstruction'')
                          @ [newSystemPromptPart])))"
proof -
  from mergeSnakeCase_camel [OF assms] obtain m where
    m: "map_of (mergeSnakeCase body) ''systemInstruction'' = Some (JObj m)"
       "map_of m ''parts'' = Some (JArr (partsOf (Some sv) @ partsOf (map_of body ''systemInstruction'')))"
    by blast
  have d: "map_of (mergeSnakeCase body) ''system_instruction'' = None"
    using assms by (simp add: mergeSnakeCase_def delete_conv' Let_def)
  from m d show ?thesis
    by (simp add: injectSystemPrompt_def update_conv' Let_def)
qed


text \<open>Snake parts a, b and camel parts c and the marker itself: the marker is
  appended again.\<close>

theorem injectSystemPrompt_merge_witness:
  "map_of (injectSystemPrompt
      [(''system_instruction'', JObj [(''parts'', JArr [JStr ''a'', JStr ''b''])]),
       (''systemInstruction'', JObj [(''parts'', JArr [JStr ''c'', newSystemPromptPart])])])
     ''system_instruction'' = None
   \<and> (\<exists>m. map_of (injectSystemPrompt
      [(''system_instruction'', JObj [(''parts'', JArr [JStr ''a'', JStr ''b''])]),
       (''systemInstruction'', JObj [(''parts'', JArr [JStr ''c'', newSystemPromptPart])])])
     ''systemInstruction'' = Some (JObj m)
     \<and> map_of m ''parts'' =
         Some (JArr [JStr ''a'', JStr ''b'', JStr ''c'', newSystemPromptPart,
                     newSystemPromptPart]))"
proof -
  let ?body = "[(''system_instruction'', JObj [(''parts'', JArr [JStr ''a'', JStr ''b''])]),
       (''systemInstruction'', JObj [(''parts'', JArr [JStr ''c'', newSystemPromptPart])])]"
  have h: "map_of ?body ''system_instruction'' =
      Some (JObj [(''parts'', JArr [JStr ''a'', JStr ''b''])])"
    by simp
  from injectSystemPrompt_merge [OF h] show ?thesis
    by (simp add: partsOf_def)
qed

section \<open>The stream interpreter\<close>

subsection \<open>The JSON codec, the upstream response and the downstream writer\<close>

text \<open>
  \<^verbatim>\<open>json.Unmarshal\<close> into a \<^verbatim>\<open>map[string]interface{}\<close> and \<^verbatim>\<open>json.Marshal\<close> belong to
  Go's library; the interpreter is modelled for any pair of them. \<open>None\<close> is an
  error return.
\<close>

record codec =
  unmarshal :: "string \<Rightarrow> obj option"
  marshal :: "obj \<Rightarrow> string option"

text \<open>An upstream response body as \<^verbatim>\<open>bufio.Scanner\<close> delivers it: the lines it
  yields, and whether \<^verbatim>\<open>scanner.Err()\<close> is set once they are exhausted.\<close>

record response =
  lines :: "string list"
  scanErr :: bool

text \<open>
  The \<^verbatim>\<open>http.ResponseWriter\<close> is the sequence of calls made on it. A \<open>Write\<close> records
  the bytes passed and whether the call succeeded; \<open>failWrite w n\<close> tells whether
  the \<open>n\<close>-th \<open>Write\<close> call (from 0) returns an error; \<open>flusher\<close> tells whether the
  writer is an \<^verbatim>\<open>http.Flusher\<close>.
\<close>

datatype call =
    SetHeader string string
  | WriteHeader int
  | Write string bool
  | Flush

record writer =
  calls :: "call list"
  flusher :: bool
  failWrite :: "nat \<Rightarrow> bool"

fun isWrite :: "call \<Rightarrow> bool" where
  "isWrite (Write s ok) = True"
| "isWrite _ = False"

definition headerSet :: "string \<Rightarrow> string \<Rightarrow> writer \<Rightarrow> writer" where
  "headerSet k v w = w\<lparr>calls := calls w @ [SetHeader k v]\<rparr>"

definition writeHeader :: "int \<Rightarrow> writer \<Rightarrow> writer" where
  "writeHeader code w = w\<lparr>calls := calls w @ [WriteHeader code]\<rparr>"

definition doWrite :: "string \<Rightarrow> writer \<Rightarrow> writer \<times> bool" where
  "doWrite s w =
    (let ok = \<not> failWrite w (length (filter isWrite (calls w)))
     in (w\<lparr>calls := calls w @ [Write s ok]\<rparr>, ok))"

definition doFlush :: "writer \<Rightarrow> writer" where
  "doFlush w = w\<lparr>calls := calls w @ [Flush]\<rparr>"

datatype error =
    StreamingNotSupported
  | WriteToClientFailed
  | WriteErrorResponseFailed
  | RetryLimitExceeded
  | RetryRequestError string

subsection \<open>Text extraction per channel\<close>

definition extractOpenAIText :: "obj \<Rightarrow> string" where
  "extractOpenAIText data =
    (case asArray (map_of data ''choices'') of
       None \<Rightarrow> []
     | Some [] \<Rightarrow> []
     | Some (c # cs) \<Rightarrow>
         (case asObject (Some c) of
            None \<Rightarrow> []
          | Some choice \<Rightarrow>
              (case asObject (map_of choice ''delta'') of
                 None \<Rightarrow> []
               | Some delta \<Rightarrow>
                   (case asString (map_of delta ''content'') of
                      Some content \<Rightarrow> content
                    | None \<Rightarrow> []))))"

definition extractGeminiText :: "obj \<Rightarrow> string" where
  "extractGeminiText data =
    (case asArray (map_of data ''candidates'') of
       None \<Rightarrow> []
     | Some [] \<Rightarrow> []
     | Some (c # cs) \<Rightarrow>
         (case asObject (Some c) of
            None \<Rightarrow> []
          | Some candidate \<Rightarrow>
              (case asObject (map_of candidate ''content'') of
                 None \<Rightarrow> []
               | Some content \<Rightarrow>
                   (case asArray (map_of content ''parts'') of
                      None \<Rightarrow> []
                    | Some [] \<Rightarrow> []
                    | Some (p # ps) \<Rightarrow>
                        (case asObject (Some p) of
                           None \<Rightarrow> []
                         | Some part \<Rightarrow>
                             (case asString (map_of part ''text'') of
                                Some text \<Rightarrow> text
                              | None \<Rightarrow> []))))))"

definition extractAnthropicText :: "obj \<Rightarrow> string" where
  "extractAnthropicText data =
    (case asString (map_of data ''type'') of
       None \<Rightarrow> []
     | Some typ \<Rightarrow>
         if typ = ''content_block_delta'' then
           (case asObject (map_of data ''delta'') of
              None \<Rightarrow> []
            | Some delta \<Rightarrow>
                (case asString (map_of delta ''text'') of Some text \<Rightarrow> text | None \<Rightarrow> []))
         else [])"

definition extractGenericText :: "obj \<Rightarrow> string" where
  "extractGenericText data =
    (case asString (map_of data ''text'') of
       Some text \<Rightarrow> text
     | None \<Rightarrow>
         (case asString (map_of data ''content'') of Some content \<Rightarrow> content | None \<Rightarrow> []))"

definition extractTextFromData :: "obj \<Rightarrow> string \<Rightarrow> string" where
  "extractTextFromData data channelType =
    (if channelType = ''openai'' then extractOpenAIText data
     else if channelType = ''gemini'' then extractGeminiText data
     else if channelType = ''anthropic'' then extractAnthropicText data
     else extractGenericText data)"

subsection \<open>Completion signals per channel\<close>

definition isOpenAIComplete :: "obj \<Rightarrow> bool" where
  "isOpenAIComplete data =
    (case asArray (map_of data ''choices'') of
       None \<Rightarrow> False
     | Some [] \<Rightarrow> False
     | Some (c # cs) \<Rightarrow>
         (case asObject (Some c) of
            None \<Rightarrow> False
          | Some choice \<Rightarrow>
              (case asString (map_of choice ''finish_reason'') of
                 Some finishReason \<Rightarrow> finishReason = ''stop'' \<or> finishReason = ''length''
               | None \<Rightarrow> False)))"

definition isGeminiComplete :: "StreamHandler \<Rightarrow> obj \<Rightarrow> string \<Rightarrow> bool" where
  "isGeminiComplete sh data accumulatedText =
    (if list_ex (Contains accumulatedText) (doneTokenPatterns sh) then True
     else (case asObject (map_of data ''metadata'') of
             None \<Rightarrow> False
           | Some metadata \<Rightarrow>
               (case asString (map_of metadata ''finishReason'') of
                  Some finishReason \<Rightarrow> finishReason = ''STOP''
                | None \<Rightarrow> False)))"

definition isAnthropicComplete :: "obj \<Rightarrow> bool" where
  "isAnthropicComplete data =
    (case asString (map_of data ''type'') of
       Some typ \<Rightarrow> typ = ''message_stop''
     | None \<Rightarrow> False)"

definition isGenericComplete :: "StreamHandler \<Rightarrow> obj \<Rightarrow> string \<Rightarrow> bool" where
  "isGenericComplete sh data accumulatedText =
    (if list_ex (Contains accumulatedText) (doneTokenPatterns sh) then True
     else (case asString (map_of data ''finish_reason'') of
             Some finishReason \<Rightarrow> finishReason = ''stop'' \<or> finishReason = ''length''
           | None \<Rightarrow> False))"

definition isStreamComplete :: "StreamHandler \<Rightarrow> obj \<Rightarrow> string \<Rightarrow> string \<Rightarrow> bool" where
  "isStreamComplete sh data channelType accumulatedText =
    (if channelType = ''openai'' then isOpenAIComplete data
     else if channelType = ''gemini'' then isGeminiComplete sh data accumulatedText
     else if channelType = ''anthropic'' then isAnthropicComplete data
     else isGenericComplete sh data accumulatedText)"

subsection \<open>Done-token removal\<close>

text \<open>The loop of \<^verbatim>\<open>RemoveDoneTokensFromText\<close> over the patterns: the first pattern
  that is a suffix is cut off, the rest is trimmed, and the loop is left.\<close>

fun removeFirstSuffix :: "string list \<Rightarrow> string \<Rightarrow> string" where
  "removeFirstSuffix [] text = text"
| "removeFirstSuffix (pattern # ps) text =
     (if HasSuffix text pattern then TrimSpace (TrimSuffix text pattern)
      else removeFirstSuffix ps text)"

definition RemoveDoneTokensFromText :: "StreamHandler \<Rightarrow> string \<Rightarrow> string" where
  "RemoveDoneTokensFromText sh text = removeFirstSuffix (doneTokenPatterns sh) text"

text \<open>The assignment \<^verbatim>\<open>part["text"] = cleanText\<close> under its five nested guards, on the
  freshly parsed frame.\<close>

definition setGeminiText :: "obj \<Rightarrow> string \<Rightarrow> obj" where
  "setGeminiText parsedData cleanText =
    (case asArray (map_of parsedData ''candidates'') of
       Some (c # cs) \<Rightarrow>
         (case asObject (Some c) of
            Some candidate \<Rightarrow>
              (case asObject (map_of candidate ''content'') of
                 Some content \<Rightarrow>
                   (case asArray (map_of content ''parts'') of
                      Some (p # ps) \<Rightarrow>
                        (case asObject (Some p) of
                           Some part \<Rightarrow>
                             AList.update ''candidates''
                               (JArr (JObj (AList.update ''content''
                                  (JObj (AList.update ''parts''
                                     (JArr (JObj (AList.update ''text'' (JStr cleanText) part) # ps))
                                     content))
                                  candidate) # cs))
                               parsedData
                         | None \<Rightarrow> parsedData)
                    | _ \<Rightarrow> parsedData)
               | None \<Rightarrow> parsedData)
          | None \<Rightarrow> parsedData)
     | _ \<Rightarrow> parsedData)"

definition removeDoneTokensFromLine :: "StreamHandler \<Rightarrow> codec \<Rightarrow> string \<Rightarrow> obj \<Rightarrow> string" where
  "removeDoneTokensFromLine sh J line data =
    (if \<not> HasPrefix line ''data: '' then line
     else
       (let dataContent = TrimPrefix line ''data: '' in
        if dataContent = ''[DONE]'' then line
        else
          (case unmarshal J dataContent of
             None \<Rightarrow> line
           | Some parsedData \<Rightarrow>
               (let text = extractGeminiText parsedData in
                if text = [] then line
                else
                  (let cleanText = RemoveDoneTokensFromText sh text in
                   if cleanText \<noteq> text then
                     (case marshal J (setGeminiText parsedData cleanText) of
                        Some newDataBytes \<Rightarrow> ''data: '' @ newDataBytes
                      | None \<Rightarrow> line)
                   else line)))))"

subsection \<open>One stream attempt\<close>

text \<open>The variables the scanning loop of \<^verbatim>\<open>processStreamAttempt\<close> updates: the
  writer, the accumulated text of the session, and the two locals of the attempt.\<close>

record scan =
  out :: writer
  accumulatedText :: string
  lastTextChunk :: string
  textInThisStream :: string

text \<open>What one round of the loop does: go on with the next line, or return
  \<^verbatim>\<open>(cleanExit, err)\<close>.\<close>

datatype step =
    Continue scan
  | Return bool "error option" scan

definition newline2 :: string where
  "newline2 = [CHR 0x0A, CHR 0x0A]"

definition processLine :: "StreamHandler \<Rightarrow> codec \<Rightarrow> string \<Rightarrow> string \<Rightarrow> scan \<Rightarrow> step" where
  "processLine sh J channelType line st =
    (if line = [] then Continue st
     else if HasPrefix line ''data: '' then
       (let dataContent = TrimPrefix line ''data: '' in
        if dataContent = ''[DONE]'' then Return True None st
        else
          (case unmarshal J dataContent of
             None \<Rightarrow> Continue st
           | Some data \<Rightarrow>
               (let textChunk = extractTextFromData data channelType;
                    st1 = (if textChunk \<noteq> [] then
                             st\<lparr>lastTextChunk := textChunk,
                                accumulatedText := accumulatedText st @ textChunk,
                                textInThisStream := textInThisStream st @ textChunk\<rparr>
                           else st);
                    processedLine = (if channelType = ''gemini''
                                     then removeDoneTokensFromLine sh J line data else line);
                    (w, ok) = doWrite (processedLine @ newline2) (out st1)
                in if \<not> ok then Return False (Some WriteToClientFailed) (st1\<lparr>out := w\<rparr>)
                   else
                     (let st2 = st1\<lparr>out := doFlush w\<rparr> in
                      if isStreamComplete sh data channelType (accumulatedText st2)
                      then Return True None st2
                      else Continue st2))))
     else
       (let (w, ok) = doWrite (line @ newline2) (out st)
        in if \<not> ok then Return False (Some WriteToClientFailed) (st\<lparr>out := w\<rparr>)
           else Continue (st\<lparr>out := doFlush w\<rparr>)))"

text \<open>The loop \<^verbatim>\<open>for scanner.Scan()\<close> over the lines of the body; \<open>Continue\<close> is the
  loop running off the end of the body.\<close>

fun scanLoop :: "StreamHandler \<Rightarrow> codec \<Rightarrow> string \<Rightarrow> string list \<Rightarrow> scan \<Rightarrow> step" where
  "scanLoop sh J channelType [] st = Continue st"
| "scanLoop sh J channelType (line # rest) st =
     (case processLine sh J channelType line st of
        Continue st' \<Rightarrow> scanLoop sh J channelType rest st'
      | Return cleanExit err st' \<Rightarrow> Return cleanExit err st')"

record attempt =
  cleanExit :: bool
  err :: "error option"
  writerAfter :: writer
  textAfter :: string
  streakAfter :: int

definition setStreamingHeaders :: "writer \<Rightarrow> writer" where
  "setStreamingHeaders w =
    headerSet ''X-Accel-Buffering'' ''no''
      (headerSet ''Connection'' ''keep-alive''
        (headerSet ''Cache-Control'' ''no-cache''
          (headerSet ''Content-Type'' ''text/event-stream'' w)))"

definition processStreamAttempt ::
  "StreamHandler \<Rightarrow> codec \<Rightarrow> response \<Rightarrow> writer \<Rightarrow> string \<Rightarrow> string \<Rightarrow> int \<Rightarrow> int \<Rightarrow> attempt" where
  "processStreamAttempt sh J resp w0 channelType accText resumePunctStreak attemptNo =
    (let w = setStreamingHeaders w0 in
     if \<not> flusher w then
       \<lparr>cleanExit = False, err = Some StreamingNotSupported, writerAfter = w,
        textAfter = accText, streakAfter = resumePunctStreak\<rparr>
     else
       (case scanLoop sh J channelType (lines resp)
               \<lparr>out = w, accumulatedText = accText, lastTextChunk = [], textInThisStream = []\<rparr> of
          Return c e st \<Rightarrow>
            \<lparr>cleanExit = c, err = e, writerAfter = out st,
             textAfter = accumulatedText st, streakAfter = resumePunctStreak\<rparr>
        | Continue st \<Rightarrow>
            if scanErr resp then
              \<lparr>cleanExit = False, err = None, writerAfter = out st,
               textAfter = accumulatedText st, streakAfter = resumePunctStreak\<rparr>
            else
              (let heuristic = (enablePunctuationHeuristic sh \<and> attemptNo > 0
                                \<and> endsWithSentencePunctuation (lastTextChunk st));
                   streak = (if heuristic then resumePunctStreak + 1 else 0)
               in if heuristic \<and> streak \<ge> 3 then
                    \<lparr>cleanExit = True, err = None, writerAfter = out st,
                     textAfter = accumulatedText st, streakAfter = streak\<rparr>
                  else if isContentComplete sh (accumulatedText st) channelType then
                    \<lparr>cleanExit = True, err = None, writerAfter = out st,
                     textAfter = accumulatedText st, streakAfter = streak\<rparr>
                  else
                    \<lparr>cleanExit = False, err = None, writerAfter = out st,
                     textAfter = accumulatedText st, streakAfter = streak\<rparr>)))"

subsection \<open>The retry controller\<close>

text \<open>\<^verbatim>\<open>%d\<close> of \<^verbatim>\<open>fmt.Sprintf\<close>: the decimal digits of an integer.\<close>

fun natDigits :: "nat \<Rightarrow> string" where
  "natDigits n =
     (if n < 10 then [''0123456789'' ! n]
      else natDigits (n div 10) @ [''0123456789'' ! (n mod 10)])"

definition showInt :: "int \<Rightarrow> string" where
  "showInt i = (if i < 0 then ''-'' @ natDigits (nat (- i)) else natDigits (nat i))"

definition retryErrorPayload :: "StreamHandler \<Rightarrow> obj" where
  "retryErrorPayload sh =
    [(''error'', JObj [(''code'', JNum 504),
                       (''status'', JStr ''DEADLINE_EXCEEDED''),
                       (''message'', JStr (''Retry limit ('' @ showInt (maxRetries sh)
                            @ '') exceeded after stream interruption''))])]"

text \<open>The marshalling error is dropped by the source (\<^verbatim>\<open>errorBytes, _ :=\<close>): the bytes
  are then empty.\<close>

definition writeRetryError :: "StreamHandler \<Rightarrow> codec \<Rightarrow> writer \<Rightarrow> int \<Rightarrow> writer \<times> error" where
  "writeRetryError sh J w0 retryCount =
    (let errorBytes = (case marshal J (retryErrorPayload sh) of Some b \<Rightarrow> b | None \<Rightarrow> []);
         w1 = writeHeader 504 (headerSet ''Content-Type'' ''application/json'' w0);
         (w2, ok) = doWrite errorBytes w1
     in if \<not> ok then (w2, WriteErrorResponseFailed) else (w2, RetryLimitExceeded))"

text \<open>The state of a session when \<^verbatim>\<open>HandleStreamingResponse\<close> returns: the returned
  error, the writer, and the three variables of the loop.\<close>

record session =
  returned :: "error option"
  client :: writer
  finalText :: string
  consecutiveRetryCount :: int
  resumePunctStreak :: int

text \<open>
  The loop of \<^verbatim>\<open>HandleStreamingResponse\<close>, from the state at the top of a round.
  \<open>retryRequestFunc n text\<close> is the outcome of the \<open>n\<close>-th retry request (the
  closure may answer differently each time it is called).
\<close>

function retryLoop ::
  "StreamHandler \<Rightarrow> codec \<Rightarrow> string \<Rightarrow> (int \<Rightarrow> string \<Rightarrow> error + response)
     \<Rightarrow> response \<Rightarrow> writer \<Rightarrow> string \<Rightarrow> int \<Rightarrow> int \<Rightarrow> session" where
  "retryLoop sh J channelType retryRequestFunc resp w accText count streak =
    (let a = processStreamAttempt sh J resp w channelType accText streak count in
     if err a \<noteq> None then
       \<lparr>returned = err a, client = writerAfter a, finalText = textAfter a,
        consecutiveRetryCount = count, resumePunctStreak = streakAfter a\<rparr>
     else if cleanExit a then
       \<lparr>returned = None, client = writerAfter a, finalText = textAfter a,
        consecutiveRetryCount = count, resumePunctStreak = streakAfter a\<rparr>
     else if count \<ge> maxRetries sh then
       (let (w', e) = writeRetryError sh J (writerAfter a) count in
        \<lparr>returned = Some e, client = w', finalText = textAfter a,
         consecutiveRetryCount = count, resumePunctStreak = streakAfter a\<rparr>)
     else
       (case retryRequestFunc (count + 1) (textAfter a) of
          Inl e \<Rightarrow>
            \<lparr>returned = Some e, client = writerAfter a, finalText = textAfter a,
             consecutiveRetryCount = count + 1, resumePunctStreak = streakAfter a\<rparr>
        | Inr newResp \<Rightarrow>
            retryLoop sh J channelType retryRequestFunc newResp (writerAfter a) (textAfter a)
              (count + 1) (streakAfter a)))"
  by pat_completeness auto
termination
  by (relation "measure (\<lambda>(sh, J, ct, f, resp, w, acc, count, streak). nat (maxRetries sh - count))")
     auto

definition HandleStreamingResponse ::
  "StreamHandler \<Rightarrow> codec \<Rightarrow> response \<Rightarrow> writer \<Rightarrow> string
     \<Rightarrow> (int \<Rightarrow> string \<Rightarrow> error + response) \<Rightarrow> session" where
  "HandleStreamingResponse sh J resp w channelType retryRequestFunc =
     retryLoop sh J channelType retryRequestFunc resp w [] 0 0"

section \<open>Test data for the concrete sessions\<close>

text \<open>Gemini frames with one text part, their JSON text, and a codec that decodes and
  encodes exactly these (and encodes the retry error of a handler with one retry) as
  Go's encoder prints them; every other payload fails to parse.\<close>

definition geminiFrame :: "string \<Rightarrow> obj" where
  "geminiFrame t =
    [(''candidates'', JArr [JObj [(''content'',
        JObj [(''parts'', JArr [JObj [(''text'', JStr t)]])])]])]"

definition geminiPayload :: "string \<Rightarrow> string" where
  "geminiPayload t = ''{\"candidates\":[{\"content\":{\"parts\":[{\"text\":\"'' @ t @ ''\"}]}}]}''"

definition testTexts :: "string list" where
  "testTexts = [''The quick brown fox '', ''jumps over the lazy dog. [done]'',
                ''jumps over the lazy dog.'', ''Finished. [done] [done]'', ''Finished. [done]'']"

definition oneRetry :: StreamHandler where
  "oneRetry = NewStreamHandler \<lparr>MaxRetries = 1, RetryDelay = Second,
                EnablePunctuationHeuristic = True, DoneTokenPatterns = []\<rparr>"

definition testCodec :: codec where
  "testCodec =
    \<lparr>unmarshal = map_of (map (\<lambda>t. (geminiPayload t, geminiFrame t)) testTexts),
     marshal = map_of ((retryErrorPayload oneRetry,
         ''{\"error\":{\"code\":504,\"message\":\"Retry limit (1) exceeded after stream interruption\",\"status\":\"DEADLINE_EXCEEDED\"}}'')
       # map (\<lambda>t. (geminiFrame t, geminiPayload t)) testTexts)\<rparr>"

definition goodWriter :: writer where
  "goodWriter = \<lparr>calls = [], flusher = True, failWrite = (\<lambda>n. False)\<rparr>"

definition brokenWriter :: writer where
  "brokenWriter = \<lparr>calls = [], flusher = True, failWrite = (\<lambda>n. True)\<rparr>"

definition emptyScan :: scan where
  "emptyScan = \<lparr>out = goodWriter, accumulatedText = [], lastTextChunk = [], textInThisStream = []\<rparr>"

section \<open>Unparsable data lines (C2)\<close>

text \<open>
  C2, as stated, fails: a \<^verbatim>\<open>data:\<close> line whose payload does not parse is not forwarded.
  An attempt on a body with the single line \<^verbatim>\<open>data: {oops\<close> makes no call on the writer
  besides setting the four headers.
\<close>

theorem unparsable_line_counterexample:
  "calls (writerAfter (processStreamAttempt (handler (CreateProcessor ''gemini'')) testCodec
      \<lparr>lines = [''data: {oops''], scanErr = False\<rparr> goodWriter ''gemini'' [] 0 0)) =
    [SetHeader ''Content-Type'' ''text/event-stream'', SetHeader ''Cache-Control'' ''no-cache'',
     SetHeader ''Connection'' ''keep-alive'', SetHeader ''X-Accel-Buffering'' ''no'']"
  by code_simp

text \<open>
  C2, amended. For every line that starts with \<^verbatim>\<open>data: \<close>, whose payload is not
  \<^verbatim>\<open>[DONE]\<close> and fails to decode, the round of the loop leaves the whole state as it
  is and goes on with the next line: no text is extracted, no completion check is
  made, and nothing is written to the client.
\<close>

theorem unparsable_data_line_skipped:
  assumes "HasPrefix line ''data: ''"
      and "TrimPrefix line ''data: '' \<noteq> ''[DONE]''"
      and "unmarshal J (TrimPrefix line ''data: '') = None"
  shows "processLine sh J channelType line st = Continue st"
  using assms by (auto simp: processLine_def HasPrefix_def)

theorem unparsable_data_line_skipped_witness:
  "processLine (handler (CreateProcessor ''gemini'')) testCodec ''gemini'' ''data: {oops'' emptyScan
     = Continue emptyScan"
proof -
  have 1: "HasPrefix ''data: {oops'' ''data: ''"
    by (simp add: HasPrefix_def)
  have 2: "TrimPrefix ''data: {oops'' ''data: '' \<noteq> ''[DONE]''"
    by (simp add: TrimPrefix_def HasPrefix_def)
  have 3: "unmarshal testCodec (TrimPrefix ''data: {oops'' ''data: '') = None"
    by (simp add: TrimPrefix_def HasPrefix_def testCodec_def testTexts_def geminiPayload_def)
  show ?thesis
    by (rule unparsable_data_line_skipped [OF 1 2 3])
qed

section \<open>The retry bound (C6)\<close>

text \<open>Every stream attempt starts by setting \<^verbatim>\<open>Content-Type: text/event-stream\<close>, and
  nothing else sets that value: the number of such calls counts the attempts made
  on a writer.\<close>

definition attempts :: "writer \<Rightarrow> nat" where
  "attempts w = length (filter (\<lambda>c. c = SetHeader ''Content-Type'' ''text/event-stream'') (calls w))"

declare retryLoop.simps [simp del]

lemma attempts_doWrite: "attempts (fst (doWrite s w)) = attempts w"
  by (simp add: attempts_def doWrite_def Let_def)
lemma attempts_doFlush: "attempts (doFlush w) = attempts w"
  by (simp add: attempts_def doFlush_def)




lemma flusher_setStreamingHeaders: "flusher (setStreamingHeaders w) = flusher w"
  by (simp add: setStreamingHeaders_def headerSet_def)





section \<open>The exhausted retry budget (C7)\<close>

lemma processLine_failWrite:
  "processLine sh J ct line st = Continue st' \<Longrightarrow> failWrite (out st') = failWrite (out st)"
  "processLine sh J ct line st = Return c e st' \<Longrightarrow> failWrite (out st') = failWrite (out st)"
  by (auto simp: processLine_def Let_def doWrite_def doFlush_def
       split: if_splits option.splits prod.splits)

lemma scanLoop_failWrite:
  "scanLoop sh J ct ls st = Continue st' \<Longrightarrow> failWrite (out st') = failWrite (out st)"
  "scanLoop sh J ct ls st = Return c e st' \<Longrightarrow> failWrite (out st') = failWrite (out st)"
  by (induction ls arbitrary: st) (auto split: step.splits dest: processLine_failWrite)

lemma failWrite_setStreamingHeaders: "failWrite (setStreamingHeaders w) = failWrite w"
  by (simp add: setStreamingHeaders_def headerSet_def)

lemma processStreamAttempt_failWrite:
  "failWrite (writerAfter (processStreamAttempt sh J resp w ct acc streak n)) = failWrite w"
  by (auto simp: processStreamAttempt_def Let_def failWrite_setStreamingHeaders
        split: step.splits dest: scanLoop_failWrite)

text \<open>
  C7, as stated, fails: when the write of the error body fails, the handler returns
  the error of that write and not the sentinel. A handler with one retry, two empty
  upstream bodies and a writer whose writes fail: the budget is exhausted after the
  second attempt, status 504 is set, and the returned error is not
  "retry limit exceeded".
\<close>

theorem retry_error_counterexample:
  "returned (HandleStreamingResponse oneRetry testCodec \<lparr>lines = [], scanErr = False\<rparr>
       brokenWriter ''gemini'' (\<lambda>n t. Inr \<lparr>lines = [], scanErr = False\<rparr>))
     = Some WriteErrorResponseFailed
   \<and> consecutiveRetryCount (HandleStreamingResponse oneRetry testCodec
       \<lparr>lines = [], scanErr = False\<rparr>
       brokenWriter ''gemini'' (\<lambda>n t. Inr \<lparr>lines = [], scanErr = False\<rparr>)) = maxRetries oneRetry"
  by code_simp

text \<open>
  C7, amended. Whenever an attempt ends without error and without clean exit while
  the retry count has reached \<open>maxRetries\<close>, the handler sets
  \<^verbatim>\<open>Content-Type: application/json\<close>, writes status 504 and writes the encoding of
  the error object with code 504, status \<^verbatim>\<open>DEADLINE_EXCEEDED\<close> and the message naming
  \<open>maxRetries\<close>, in this order and as its last calls on the writer; it returns the
  sentinel "retry limit exceeded" when that write succeeds, and the error of the
  failed write otherwise.
\<close>

theorem retry_budget_exhausted:
  assumes "err (processStreamAttempt sh J resp w channelType accText streak count) = None"
      and "\<not> cleanExit (processStreamAttempt sh J resp w channelType accText streak count)"
      and "maxRetries sh \<le> count"
  shows "calls (client (retryLoop sh J channelType f resp w accText count streak)) =
           calls (writerAfter (processStreamAttempt sh J resp w channelType accText streak count))
           @ [SetHeader ''Content-Type'' ''application/json'',
              WriteHeader 504,
              Write (case marshal J
                       [(''error'', JObj [(''code'', JNum 504),
                          (''status'', JStr ''DEADLINE_EXCEEDED''),
                          (''message'', JStr (''Retry limit ('' @ showInt (maxRetries sh)
                               @ '') exceeded after stream interruption''))])] of
                     Some b \<Rightarrow> b | None \<Rightarrow> [])
                (\<not> failWrite w (length (filter isWrite
                     (calls (writerAfter (processStreamAttempt sh J resp w channelType accText streak count))))))]
       \<and> returned (retryLoop sh J channelType f resp w accText count streak) =
           Some (if failWrite w (length (filter isWrite
                     (calls (writerAfter (processStreamAttempt sh J resp w channelType accText streak count)))))
                 then WriteErrorResponseFailed else RetryLimitExceeded)"
proof -
  let ?a = "processStreamAttempt sh J resp w channelType accText streak count"
  have fw: "failWrite (writerAfter ?a) = failWrite w"
    by (rule processStreamAttempt_failWrite)
  have unf: "retryLoop sh J channelType f resp w accText count streak =
      (let (w', e) = writeRetryError sh J (writerAfter ?a) count in
        \<lparr>returned = Some e, client = w', finalText = textAfter ?a,
         consecutiveRetryCount = count, resumePunctStreak = streakAfter ?a\<rparr>)"
    using assms by (subst retryLoop.simps) (simp add: Let_def)
  show ?thesis
    unfolding unf
    by (simp add: writeRetryError_def retryErrorPayload_def doWrite_def headerSet_def
          writeHeader_def Let_def fw split: prod.splits)
qed

theorem retry_budget_exhausted_witness:
  "calls (client (retryLoop oneRetry testCodec ''gemini''
       (\<lambda>n t. Inr \<lparr>lines = [], scanErr = False\<rparr>) \<lparr>lines = [], scanErr = False\<rparr>
       goodWriter [] 1 0)) =
     [SetHeader ''Content-Type'' ''text/event-stream'', SetHeader ''Cache-Control'' ''no-cache'',
      SetHeader ''Connection'' ''keep-alive'', SetHeader ''X-Accel-Buffering'' ''no'',
      SetHeader ''Content-Type'' ''application/json'',
      WriteHeader 504,
      Write ''{\"error\":{\"code\":504,\"message\":\"Retry limit (1) exceeded after stream interruption\",\"status\":\"DEADLINE_EXCEEDED\"}}'' True]
   \<and> returned (retryLoop oneRetry testCodec ''gemini''
       (\<lambda>n t. Inr \<lparr>lines = [], scanErr = False\<rparr>) \<lparr>lines = [], scanErr = False\<rparr>
       goodWriter [] 1 0) = Some RetryLimitExceeded"
proof -
  let ?r = "\<lparr>lines = [], scanErr = False\<rparr>"
  let ?a = "processStreamAttempt oneRetry testCodec ?r goodWriter ''gemini'' [] 0 1"
  have h1: "err ?a = None"
    by code_simp
  have h2: "\<not> cleanExit ?a"
    by code_simp
  have h3: "maxRetries oneRetry \<le> 1"
    by code_simp
  have e1: "calls (writerAfter ?a) =
      [SetHeader ''Content-Type'' ''text/event-stream'', SetHeader ''Cache-Control'' ''no-cache'',
       SetHeader ''Connection'' ''keep-alive'', SetHeader ''X-Accel-Buffering'' ''no'']"
    by code_simp
  have e2: "marshal testCodec
       [(''error'', JObj [(''code'', JNum 504),
          (''status'', JStr ''DEADLINE_EXCEEDED''),
          (''message'', JStr (''Retry limit ('' @ showInt (maxRetries oneRetry)
               @ '') exceeded after stream interruption''))])] =
     Some ''{\"error\":{\"code\":504,\"message\":\"Retry limit (1) exceeded after stream interruption\",\"status\":\"DEADLINE_EXCEEDED\"}}''"
    by code_simp
  have e3: "\<not> failWrite goodWriter n" for n
    by (simp add: goodWriter_def)
  from retry_budget_exhausted [OF h1 h2 h3, of "\<lambda>n t. Inr ?r"] show ?thesis
    by (simp only: e1 e2 e3) simp
qed

section \<open>The simple pass-through\<close>

text \<open>
  What \<^verbatim>\<open>resp.Body.Read(buf)\<close> returns, call after call: the bytes read and the error.
  A body whose list of reads is used up reports \<^verbatim>\<open>io.EOF\<close>.
\<close>

datatype readError = NoError | EOF | ReadFailed





section \<open>The streaming headers (C5)\<close>






















end
